theory Spec2Isabelle
  imports Complex_Main "HOL-Library.AList" "HOL-Library.Sublist"
begin

section \<open>The agent builder of Node.py\<close>

text \<open>
  Node.py is a Streamlit script: every interaction runs it top to bottom against
  \<^verbatim>\<open>st.session_state\<close>, and a pressed button runs the block under its \<^verbatim>\<open>if\<close>. Each such
  block is modelled as a function from the state before to how the block ends and the
  state after.
\<close>

subsection \<open>Data classes\<close>

text \<open>The dataclass \<^verbatim>\<open>NodeConfig\<close> (fields id, type, name, x, y, properties).\<close>

record NodeConfig =
  nc_id :: string
  nc_type :: string
  nc_name :: string
  nc_x :: real
  nc_y :: real
  nc_properties :: "(string \<times> string) list"

text \<open>The dataclass \<^verbatim>\<open>Connection\<close>; \<^verbatim>\<open>condition\<close> is \<^verbatim>\<open>Optional[str] = None\<close>.\<close>

record Connection =
  conn_id :: string
  from_node :: string
  to_node :: string
  from_port :: string
  to_port :: string
  condition :: "string option"

text \<open>The dataclass \<^verbatim>\<open>AgentFlow\<close>.\<close>

record AgentFlow =
  nodes :: "NodeConfig list"
  connections :: "Connection list"
  metadata :: "(string \<times> string) list"

text \<open>
  The dictionary \<^verbatim>\<open>canvas_data\<close>, \<^verbatim>\<open>{'nodes': [], 'connections': []}\<close>. In 1Node.py its
  nodes are dictionaries: the canvas script writes the keys id, type, x, y and name, the
  properties editor adds the others. A key that may be absent is an option.
\<close>

record canvas_node =
  n_id :: string
  n_type :: string
  n_x :: real
  n_y :: real
  n_name :: "string option"
  n_model :: "string option"
  n_temperature :: "real option"
  n_tool_type :: "string option"
  n_parameters :: "string option"
  n_memory_type :: "string option"
  n_routing_logic :: "string option"

record canvas_conn =
  c_from :: string
  c_to :: string
  c_id :: string

record canvas_data =
  cd_nodes :: "canvas_node list"
  cd_connections :: "canvas_conn list"

definition empty_canvas :: canvas_data where
  "empty_canvas = \<lparr>cd_nodes = [], cd_connections = []\<rparr>"

subsection \<open>Session state and the object store\<close>

text \<open>
  \<^verbatim>\<open>st.session_state.agent_flow\<close> and the values of \<^verbatim>\<open>saved_agents\<close> are references to
  \<^verbatim>\<open>AgentFlow\<close> objects, and the demo buttons append to the lists of the object in place.
  The store is the list of all \<^verbatim>\<open>AgentFlow\<close> objects created so far; a reference is an
  index into it. The field \<open>canvas\<close> is the key \<^verbatim>\<open>canvas_data\<close>. The keys that only the
  simulated run and the charts use (\<^verbatim>\<open>execution_stats\<close>, \<^verbatim>\<open>agent_running\<close>,
  \<^verbatim>\<open>api_status\<close>, \<^verbatim>\<open>conversation_history\<close>, \<^verbatim>\<open>current_agent_config\<close>) are left out.
\<close>

record app_state =
  heap :: "AgentFlow list"
  agent_flow :: nat
  canvas :: canvas_data
  execution_log :: "string list"
  saved_agents :: "(string \<times> nat) list"

datatype py_exception = AttributeError | KeyError

datatype notice = Success string | Warning string

text \<open>
  How a block ends: it falls through (\<open>Done\<close>), calls \<^verbatim>\<open>st.rerun()\<close>, or raises. The
  notices are the texts it showed with \<^verbatim>\<open>st.success\<close> and \<^verbatim>\<open>st.warning\<close>.
\<close>

datatype outcome = Done "notice list" | Rerun "notice list" | Raised py_exception

text \<open>\<^verbatim>\<open>initialize_session_state\<close> on a fresh session.\<close>

definition initialize_session_state :: app_state where
  "initialize_session_state =
     \<lparr>heap = [\<lparr>nodes = [], connections = [], metadata = []\<rparr>],
      agent_flow = 0,
      canvas = empty_canvas,
      execution_log = [],
      saved_agents = []\<rparr>"

text \<open>The \<^verbatim>\<open>AgentFlow\<close> the session currently points to.\<close>

definition current_flow :: "app_state \<Rightarrow> AgentFlow" where
  "current_flow s = heap s ! agent_flow s"

subsection \<open>Sidebar: Clear, Save, Load\<close>

text \<open>
  \<^verbatim>\<open>st.session_state.agent_flow = AgentFlow([], [], {})\<close> creates a new object and
  points the session to it; the old object stays in the store.
\<close>

definition clear :: "app_state \<Rightarrow> outcome \<times> app_state" where
  "clear s =
     (Rerun [],
      s\<lparr>canvas := empty_canvas,
        heap := heap s @ [\<lparr>nodes = [], connections = [], metadata = []\<rparr>],
        agent_flow := length (heap s)\<rparr>)"

text \<open>
  \<^verbatim>\<open>st.session_state.saved_agents[agent_name] = st.session_state.agent_flow\<close>: the
  dictionary entry receives the reference itself. A dictionary assignment replaces the
  value of a key that is there and appends a new key otherwise.
\<close>

definition save :: "string \<Rightarrow> app_state \<Rightarrow> outcome \<times> app_state" where
  "save agent_name s =
     (Done [Success ''Agent saved!''],
      s\<lparr>saved_agents := AList.update agent_name (agent_flow s) (saved_agents s)\<rparr>)"

text \<open>
  The load block runs when \<^verbatim>\<open>saved_agents\<close> is not empty and the selected name is not the
  empty string (the select box offers the empty string first).
\<close>

definition load :: "string \<Rightarrow> app_state \<Rightarrow> outcome \<times> app_state" where
  "load selected_agent s =
     (if saved_agents s \<noteq> [] \<and> selected_agent \<noteq> [] then
        (case map_of (saved_agents s) selected_agent of
           None \<Rightarrow> (Raised KeyError, s)
         | Some r \<Rightarrow> (Rerun [Success ''Loaded agent!''], s\<lparr>agent_flow := r\<rparr>))
      else (Done [], s))"

text \<open>The graph stored under a name, read through the reference.\<close>

definition saved_flow :: "app_state \<Rightarrow> string \<Rightarrow> AgentFlow option" where
  "saved_flow s agent_name = map_option (\<lambda>r. heap s ! r) (map_of (saved_agents s) agent_name)"

subsection \<open>Demo buttons\<close>

text \<open>
  Add Demo Node. \<^verbatim>\<open>uuid4\<close> is the string of the UUID drawn by \<^verbatim>\<open>uuid.uuid4()\<close>, and
  \<^verbatim>\<open>rand_x\<close>, \<^verbatim>\<open>rand_y\<close> are the two draws of \<^verbatim>\<open>np.random.rand()\<close>. The node is
  appended to the list of the current \<^verbatim>\<open>AgentFlow\<close> object, in place.
\<close>

definition demo_node :: "string \<Rightarrow> real \<Rightarrow> real \<Rightarrow> NodeConfig" where
  "demo_node new_id rand_x rand_y =
     \<lparr>nc_id = new_id, nc_type = ''Input'', nc_name = ''Input_'' @ take 4 new_id,
      nc_x = rand_x * 400, nc_y = rand_y * 400, nc_properties = []\<rparr>"

definition add_demo_node :: "string \<Rightarrow> real \<Rightarrow> real \<Rightarrow> app_state \<Rightarrow> outcome \<times> app_state" where
  "add_demo_node uuid4 rand_x rand_y s =
     (let new_id = uuid4;
          d = demo_node new_id rand_x rand_y;
          af = current_flow s;
          s1 = s\<lparr>heap := (heap s)[agent_flow s := af\<lparr>nodes := nodes af @ [d]\<rparr>]\<rparr>;
          s2 = s1\<lparr>execution_log := execution_log s1 @ [''Added demo node: '' @ nc_name d]\<rparr>
      in (Rerun [], s2))"

text \<open>A sequence of presses of Add Demo Node, each with its own draws.\<close>

fun add_demo_nodes :: "(string \<times> real \<times> real) list \<Rightarrow> app_state \<Rightarrow> app_state" where
  "add_demo_nodes [] s = s"
| "add_demo_nodes ((uuid4, rand_x, rand_y) # draws) s =
     add_demo_nodes draws (snd (add_demo_node uuid4 rand_x rand_y s))"

text \<open>
  Attribute access on a Python list. A list has its methods (listed here without the
  names in double underscores) and no data attribute; the name \<^verbatim>\<open>id\<close> is none of them,
  so \<^verbatim>\<open>nodes.id\<close> raises \<^verbatim>\<open>AttributeError\<close> whatever the list holds. A method, were one
  named, would be returned as an object, written here by its name.
\<close>

definition list_methods :: "string list" where
  "list_methods = [''append'', ''clear'', ''copy'', ''count'', ''extend'', ''index'',
                   ''insert'', ''pop'', ''remove'', ''reverse'', ''sort'']"

definition list_getattr :: "'a list \<Rightarrow> string \<Rightarrow> py_exception + string" where
  "list_getattr xs attr = (if attr \<in> set list_methods then Inr attr else Inl AttributeError)"

text \<open>
  Add Demo Connection. The arguments of \<^verbatim>\<open>Connection(...)\<close> are evaluated before the
  object exists and before anything is appended: \<^verbatim>\<open>from_node\<close> reads the attribute
  \<^verbatim>\<open>id\<close> of the list \<^verbatim>\<open>nodes\<close> itself, \<^verbatim>\<open>to_node\<close> the id of the last node.
\<close>

definition add_demo_connection :: "string \<Rightarrow> app_state \<Rightarrow> outcome \<times> app_state" where
  "add_demo_connection uuid4 s =
     (let af = current_flow s in
      if length (nodes af) \<ge> 2 then
        (let new_conn_id = uuid4 in
         case list_getattr (nodes af) ''id'' of
           Inl e \<Rightarrow> (Raised e, s)
         | Inr v \<Rightarrow>
             (let c = \<lparr>conn_id = new_conn_id, from_node = v,
                       to_node = nc_id (last (nodes af)),
                       from_port = ''output'', to_port = ''input'', condition = None\<rparr>;
                  s1 = s\<lparr>heap := (heap s)[agent_flow s :=
                              af\<lparr>connections := connections af @ [c]\<rparr>]\<rparr>;
                  s2 = s1\<lparr>execution_log := execution_log s1 @
                         [''Added demo connection from '' @ take 4 (from_node c) @
                          '' to '' @ take 4 (to_node c)]\<rparr>
              in (Rerun [], s2)))
      else (Done [Warning ''Add at least 2 nodes first.''], s))"

section \<open>The visual builder of 1Node.py\<close>

text \<open>
  1Node.py keeps \<^verbatim>\<open>canvas_data\<close>, \<^verbatim>\<open>selected_node\<close> and \<^verbatim>\<open>show_json\<close> in the session
  state. \<^verbatim>\<open>st.session_state.get('show_json', False)\<close> reads an absent key as False, so
  the flag is a boolean that starts False.
\<close>

record builder_state =
  canvas_data :: canvas_data
  selected_node :: "string option"
  show_json :: bool

definition initial_builder_state :: builder_state where
  "initial_builder_state =
     \<lparr>canvas_data = empty_canvas, selected_node = None, show_json = False\<rparr>"

subsection \<open>Sidebar buttons\<close>

definition clear_canvas :: "builder_state \<Rightarrow> outcome \<times> builder_state" where
  "clear_canvas s = (Rerun [], s\<lparr>canvas_data := empty_canvas\<rparr>)"

definition export_json_button :: "builder_state \<Rightarrow> outcome \<times> builder_state" where
  "export_json_button s = (Done [], s\<lparr>show_json := True\<rparr>)"

subsection \<open>Node properties editor\<close>

text \<open>
  What the widgets of the editor return in this run. Each is the user's input:
  \<^verbatim>\<open>text_input\<close> and \<^verbatim>\<open>text_area\<close> a string, \<^verbatim>\<open>selectbox\<close> one of its options, and
  \<^verbatim>\<open>slider("Temperature", 0.0, 1.0, 0.7)\<close> a number of its range, from 0.0 to 1.0.
\<close>

record editor_widgets =
  name_input :: string
  model_select :: string
  temperature_slider :: real
  tool_type_select :: string
  parameters_area :: string
  memory_type_select :: string
  routing_logic_area :: string

text \<open>
  The loop that looks for the selected node stops at the first node whose id is the
  selected one; the result is its index, since the editor writes into that dictionary.
\<close>

fun find_node :: "canvas_node list \<Rightarrow> string \<Rightarrow> nat option" where
  "find_node [] sel = None"
| "find_node (node # rest) sel =
     (if n_id node = sel then Some 0 else map_option Suc (find_node rest sel))"

definition edit_node :: "editor_widgets \<Rightarrow> canvas_node \<Rightarrow> canvas_node" where
  "edit_node w node =
     (let n1 = node\<lparr>n_name := Some (name_input w)\<rparr> in
      if n_type n1 = ''LLM'' then
        n1\<lparr>n_model := Some (model_select w), n_temperature := Some (temperature_slider w)\<rparr>
      else if n_type n1 = ''Tool'' then
        n1\<lparr>n_tool_type := Some (tool_type_select w), n_parameters := Some (parameters_area w)\<rparr>
      else if n_type n1 = ''Memory'' then
        n1\<lparr>n_memory_type := Some (memory_type_select w)\<rparr>
      else if n_type n1 = ''Router'' then
        n1\<lparr>n_routing_logic := Some (routing_logic_area w)\<rparr>
      else n1)"

text \<open>
  \<^verbatim>\<open>if st.session_state.selected_node:\<close> skips the editor for \<^verbatim>\<open>None\<close> and for the empty
  string; \<^verbatim>\<open>if selected_node:\<close> skips it when no node has the selected id.
\<close>

definition properties_editor :: "editor_widgets \<Rightarrow> builder_state \<Rightarrow> builder_state" where
  "properties_editor w s =
     (case selected_node s of
        None \<Rightarrow> s
      | Some sel \<Rightarrow>
          if sel = [] then s
          else (case find_node (cd_nodes (canvas_data s)) sel of
                  None \<Rightarrow> s
                | Some i \<Rightarrow>
                    s\<lparr>canvas_data := (canvas_data s)
                        \<lparr>cd_nodes := (cd_nodes (canvas_data s))
                           [i := edit_node w (cd_nodes (canvas_data s) ! i)]\<rparr>\<rparr>))"

subsection \<open>JSON export\<close>

text \<open>
  The document \<^verbatim>\<open>agent_config\<close>. Its \<^verbatim>\<open>nodes\<close> value and each \<^verbatim>\<open>config\<close> are
  dictionaries, kept as association lists in insertion order; an assignment to a key
  that is there replaces its value in place (\<open>AList.update\<close>).
\<close>

datatype json_value = JStr string | JNum real

record position =
  pos_x :: real
  pos_y :: real

record node_entry =
  entry_type :: string
  entry_name :: string
  entry_position :: position
  entry_config :: "(string \<times> json_value) list"

record flow_entry =
  flow_from :: string
  flow_to :: string
  flow_condition :: string

record agent_config =
  agent_type :: string
  created_at :: string
  config_nodes :: "(string \<times> node_entry) list"
  flow :: "flow_entry list"

text \<open>
  \<^verbatim>\<open>str.lower\<close> is a method of Python's strings, not code of the scripts: the export
  takes it as the parameter \<open>str_lower\<close>.
\<close>

text \<open>
  \<^verbatim>\<open>agent_config["nodes"][node['id']]["config"][key] = v\<close>: the entry stored under the
  node's id gets the key in its \<^verbatim>\<open>config\<close>.
\<close>

definition set_config :: "string \<Rightarrow> string \<Rightarrow> json_value \<Rightarrow> (string \<times> node_entry) list \<Rightarrow> (string \<times> node_entry) list" where
  "set_config node_id key v acc =
     AList.map_entry node_id (\<lambda>e. e\<lparr>entry_config := AList.update key v (entry_config e)\<rparr>) acc"

text \<open>The body of the loop over \<^verbatim>\<open>canvas_data['nodes']\<close>.\<close>

definition export_node :: "(string \<Rightarrow> string) \<Rightarrow> (string \<times> node_entry) list \<Rightarrow> canvas_node \<Rightarrow> (string \<times> node_entry) list" where
  "export_node str_lower acc node =
     (let a0 = AList.update (n_id node)
                 \<lparr>entry_type = str_lower (n_type node),
                  entry_name = (case n_name node of Some v \<Rightarrow> v | None \<Rightarrow> n_type node),
                  entry_position = \<lparr>pos_x = n_x node, pos_y = n_y node\<rparr>,
                  entry_config = []\<rparr> acc;
          a1 = (case n_model node of
                  Some m \<Rightarrow> set_config (n_id node) ''model'' (JStr m) a0 | None \<Rightarrow> a0);
          a2 = (case n_temperature node of
                  Some t \<Rightarrow> set_config (n_id node) ''temperature'' (JNum t) a1 | None \<Rightarrow> a1);
          a3 = (case n_tool_type node of
                  Some tt \<Rightarrow> set_config (n_id node) ''tool_type'' (JStr tt) a2 | None \<Rightarrow> a2)
      in a3)"

text \<open>The body of the loop over \<^verbatim>\<open>canvas_data['connections']\<close>.\<close>

definition export_conn :: "canvas_conn \<Rightarrow> flow_entry" where
  "export_conn conn = \<lparr>flow_from = c_from conn, flow_to = c_to conn, flow_condition = ''default''\<rparr>"

text \<open>The configuration generated from the canvas data: the dictionary literal, then the two loops.\<close>

definition to_config :: "(string \<Rightarrow> string) \<Rightarrow> canvas_data \<Rightarrow> agent_config" where
  "to_config str_lower cd =
     \<lparr>agent_type = ''custom_visual_agent'',
      created_at = ''2024-01-01T00:00:00Z'',
      config_nodes = foldl (export_node str_lower) [] (cd_nodes cd),
      flow = foldl (\<lambda>acc conn. acc @ [export_conn conn]) [] (cd_connections cd)\<rparr>"

text \<open>
  The export section of the script: nothing unless \<^verbatim>\<open>show_json\<close> is set; otherwise the
  document is generated and shown, and the Hide JSON button, when pressed in this run,
  resets the flag and reruns. The first component is the document shown, if any.
\<close>

definition export_section :: "(string \<Rightarrow> string) \<Rightarrow> bool \<Rightarrow> builder_state \<Rightarrow> agent_config option \<times> outcome \<times> builder_state" where
  "export_section str_lower hide_pressed s =
     (if show_json s then
        (let cfg = to_config str_lower (canvas_data s) in
         if hide_pressed then (Some cfg, Rerun [], s\<lparr>show_json := False\<rparr>)
         else (Some cfg, Done [], s))
      else (None, Done [], s))"

subsection \<open>Runs of the script\<close>

text \<open>
  One interaction runs the script once from top to bottom: the Clear Canvas button, the
  Export JSON button, the properties editor, the canvas, the export section with its
  Hide JSON button. At most one button is pressed in a run, and \<^verbatim>\<open>st.rerun()\<close> starts a
  further run in which none is. A run with no button pressed passes the editor and the
  export section.
\<close>

datatype ui_event = Press_clear_canvas | Press_export_json | Press_hide_json | Other_interaction

definition script_pass :: "(string \<Rightarrow> string) \<Rightarrow> editor_widgets \<Rightarrow> builder_state \<Rightarrow> builder_state" where
  "script_pass str_lower w s = snd (snd (export_section str_lower False (properties_editor w s)))"

definition script_run :: "(string \<Rightarrow> string) \<Rightarrow> ui_event \<Rightarrow> editor_widgets \<Rightarrow> builder_state \<Rightarrow> builder_state" where
  "script_run str_lower ev w s =
     (case ev of
        Press_clear_canvas \<Rightarrow> script_pass str_lower w (snd (clear_canvas s))
      | Press_export_json \<Rightarrow> script_pass str_lower w (snd (export_json_button s))
      | Press_hide_json \<Rightarrow>
          script_pass str_lower w
            (snd (snd (export_section str_lower True (properties_editor w s))))
      | Other_interaction \<Rightarrow> script_pass str_lower w s)"

text \<open>
  A session of 1Node.py: the interactions in order, each with the values the editor
  widgets have in that run, from the state of a new session.
\<close>

definition run_script :: "(string \<Rightarrow> string) \<Rightarrow> (ui_event \<times> editor_widgets) list \<Rightarrow> builder_state" where
  "run_script str_lower evs =
     foldl (\<lambda>s (ev, w). script_run str_lower ev w s) initial_builder_state evs"

text \<open>
  Referential integrity of a document: every \<^verbatim>\<open>from\<close> and \<^verbatim>\<open>to\<close> of its \<^verbatim>\<open>flow\<close> list is
  a key of its \<^verbatim>\<open>nodes\<close> dictionary.
\<close>

definition referential_integrity :: "agent_config \<Rightarrow> bool" where
  "referential_integrity cfg =
     list_all (\<lambda>e. flow_from e \<in> set (map fst (config_nodes cfg)) \<and>
                    flow_to e \<in> set (map fst (config_nodes cfg))) (flow cfg)"

text \<open>
  Reading a document: \<^verbatim>\<open>agent_config["nodes"][node_id]["config"].get(key)\<close>, with
  \<open>None\<close> also when the document has no such node.
\<close>

definition config_lookup :: "agent_config \<Rightarrow> string \<Rightarrow> string \<Rightarrow> json_value option" where
  "config_lookup cfg node_id key =
     (case map_of (config_nodes cfg) node_id of
        None \<Rightarrow> None
      | Some e \<Rightarrow> map_of (entry_config e) key)"

text \<open>
  The entry one pass of the node loop leaves under the node's id, in closed form: the
  four fixed keys, and in \<^verbatim>\<open>config\<close> the keys \<^verbatim>\<open>model\<close>, \<^verbatim>\<open>temperature\<close> and \<^verbatim>\<open>tool_type\<close>,
  in this order, each only if the node has it. (Derived, for the proofs; lemma
  \<open>export_node_lookup\<close> relates it to the loop body.)
\<close>

definition entry_of :: "(string \<Rightarrow> string) \<Rightarrow> canvas_node \<Rightarrow> node_entry" where
  "entry_of str_lower node =
     \<lparr>entry_type = str_lower (n_type node),
      entry_name = (case n_name node of Some v \<Rightarrow> v | None \<Rightarrow> n_type node),
      entry_position = \<lparr>pos_x = n_x node, pos_y = n_y node\<rparr>,
      entry_config =
        (case n_model node of Some m \<Rightarrow> [(''model'', JStr m)] | None \<Rightarrow> []) @
        (case n_temperature node of Some t \<Rightarrow> [(''temperature'', JNum t)] | None \<Rightarrow> []) @
        (case n_tool_type node of Some tt \<Rightarrow> [(''tool_type'', JStr tt)] | None \<Rightarrow> [])\<rparr>"

section \<open>The canvas script embedded in 1Node.py\<close>

text \<open>
  The JavaScript in \<^verbatim>\<open>canvas_html\<close> keeps \<^verbatim>\<open>canvasState\<close> (the canvas data, as JSON) and
  draws with Fabric.js. Only what reaches \<^verbatim>\<open>canvasState\<close> and the handlers' own variables
  is modelled; shapes, colours and \<^verbatim>\<open>postMessage\<close> are left out.
\<close>

text \<open>
  \<^verbatim>\<open>componentTemplates\<close> is the dictionary \<^verbatim>\<open>components\<close>: a colour for each component type
  (icon and description are only displayed).
\<close>

definition componentTemplates :: "(string \<times> string) list" where
  "componentTemplates =
     [(''Input'', ''#4CAF50''), (''LLM'', ''#2196F3''), (''Tool'', ''#FF9800''),
      (''Memory'', ''#9C27B0''), (''Router'', ''#F44336''), (''Output'', ''#795548'')]"

text \<open>
  \<^verbatim>\<open>componentTemplates[type]\<close> reads a property of a JavaScript object: beside the six
  keys it finds the properties every object inherits from \<^verbatim>\<open>Object.prototype\<close>, which are
  functions or objects and so count as true. The result is a template with its colour,
  an inherited property (whose \<^verbatim>\<open>color\<close> is undefined), or undefined (\<open>None\<close>).
\<close>

definition object_prototype_names :: "string list" where
  "object_prototype_names =
     [''constructor'', ''__defineGetter__'', ''__defineSetter__'', ''hasOwnProperty'',
      ''__lookupGetter__'', ''__lookupSetter__'', ''isPrototypeOf'', ''propertyIsEnumerable'',
      ''toString'', ''valueOf'', ''__proto__'', ''toLocaleString'']"

datatype template = Template string | Inherited

definition template_lookup :: "string \<Rightarrow> template option" where
  "template_lookup ty =
     (case map_of componentTemplates ty of
        Some colour \<Rightarrow> Some (Template colour)
      | None \<Rightarrow> if ty \<in> set object_prototype_names then Some Inherited else None)"

text \<open>
  A node group on the canvas with the properties the handlers read. Groups are JavaScript
  objects and the click handler compares them with \<^verbatim>\<open>!==\<close>: \<open>oid\<close> is the identity of
  the object, the number of groups created before it.
\<close>

record group =
  oid :: nat
  nodeId :: string
  nodeType :: string
  group_left :: real
  group_top :: real

record js_state =
  canvasState :: canvas_data
  canvas_groups :: "group list"
  selectedNodeId :: "string option"
  connectionMode :: bool
  connectionStart :: "group option"

text \<open>
  The variables as the script declares them, \<^verbatim>\<open>canvasState\<close> being the canvas data of the
  session written into the page.
\<close>

definition initial_js_state :: "canvas_data \<Rightarrow> js_state" where
  "initial_js_state cd =
     \<lparr>canvasState = cd, canvas_groups = [], selectedNodeId = None,
      connectionMode = False, connectionStart = None\<rparr>"

datatype js_exception = TypeError

text \<open>A number joined to a string is written in decimal.\<close>

fun string_of_nat :: "nat \<Rightarrow> string" where
  "string_of_nat n =
     (if n < 10 then [''0123456789'' ! n]
      else string_of_nat (n div 10) @ [''0123456789'' ! (n mod 10)])"

declare string_of_nat.simps [simp del]

text \<open>\<^verbatim>\<open>s.slice(-k)\<close>: the last \<open>k\<close> characters, or all of \<open>s\<close> when it is shorter.\<close>

definition slice_last :: "nat \<Rightarrow> string \<Rightarrow> string" where
  "slice_last k s = drop (length s - k) s"

text \<open>
  \<^verbatim>\<open>createNode(type, x, y)\<close>. \<open>now\<close> is \<^verbatim>\<open>Date.now()\<close> and \<open>rnd\<close> the string
  \<^verbatim>\<open>Math.random().toString(36).substr(2, 9)\<close>. For a type of which
  \<^verbatim>\<open>componentTemplates\<close> has no property the template is undefined and reading its colour
  throws, before the group is added and the node pushed. \<open>new_node\<close> is the dictionary
  pushed to \<^verbatim>\<open>canvasState.nodes\<close>.
\<close>

definition new_node :: "string \<Rightarrow> string \<Rightarrow> real \<Rightarrow> real \<Rightarrow> canvas_node" where
  "new_node new_id ty x y =
     \<lparr>n_id = new_id, n_type = ty, n_x = x, n_y = y,
      n_name = Some (ty @ ''_'' @ slice_last 4 new_id),
      n_model = None, n_temperature = None, n_tool_type = None,
      n_parameters = None, n_memory_type = None, n_routing_logic = None\<rparr>"

definition createNode :: "string \<Rightarrow> real \<Rightarrow> real \<Rightarrow> nat \<Rightarrow> string \<Rightarrow> js_state \<Rightarrow> js_exception + (group \<times> js_state)" where
  "createNode ty x y now rnd st =
     (let new_id = ''node_'' @ string_of_nat now @ ''_'' @ rnd in
      case template_lookup ty of
        None \<Rightarrow> Inl TypeError
      | Some template \<Rightarrow>
          (let g = \<lparr>oid = length (canvas_groups st), nodeId = new_id, nodeType = ty,
                    group_left = x - 60, group_top = y - 40\<rparr>;
               st1 = st\<lparr>canvas_groups := canvas_groups st @ [g]\<rparr>;
               st2 = st1\<lparr>canvasState := (canvasState st1)
                        \<lparr>cd_nodes := cd_nodes (canvasState st1) @ [new_node new_id ty x y]\<rparr>\<rparr>
           in Inr (g, st2)))"

text \<open>
  \<^verbatim>\<open>createConnection(startNode, endNode)\<close>: the line and the arrow head are drawn, then
  the connection is pushed. Nothing is compared or looked up. \<open>now\<close> is \<^verbatim>\<open>Date.now()\<close>.
\<close>

definition createConnection :: "group \<Rightarrow> group \<Rightarrow> nat \<Rightarrow> js_state \<Rightarrow> js_state" where
  "createConnection startNode endNode now st =
     st\<lparr>canvasState := (canvasState st)
          \<lparr>cd_connections := cd_connections (canvasState st) @
             [\<lparr>c_from = nodeId startNode, c_to = nodeId endNode,
               c_id = ''conn_'' @ string_of_nat now\<rparr>]\<rparr>\<rparr>"

text \<open>
  The double-click handler: outside connection mode it asks for a type with \<^verbatim>\<open>prompt\<close>
  (\<open>None\<close> when cancelled) and creates the node when the answer is not empty and
  \<^verbatim>\<open>componentTemplates\<close> has a property of that name.
\<close>

definition on_dblclick :: "string option \<Rightarrow> real \<Rightarrow> real \<Rightarrow> nat \<Rightarrow> string \<Rightarrow> js_state \<Rightarrow> js_state" where
  "on_dblclick answer px py now rnd st =
     (if \<not> connectionMode st then
        (case answer of
           None \<Rightarrow> st
         | Some ty \<Rightarrow>
             if ty \<noteq> [] \<and> template_lookup ty \<noteq> None then
               (case createNode ty px py now rnd st of Inl e \<Rightarrow> st | Inr (g, st') \<Rightarrow> st')
             else st)
      else st)"

text \<open>The key handler: \<^verbatim>\<open>c\<close> or \<^verbatim>\<open>C\<close> toggles connection mode.\<close>

definition on_keydown :: "string \<Rightarrow> js_state \<Rightarrow> js_state" where
  "on_keydown key st =
     (if key = ''c'' \<or> key = ''C'' then st\<lparr>connectionMode := \<not> connectionMode st\<rparr> else st)"

text \<open>
  The mouse-down handler of a node group. In connection mode the first click marks the
  start, and a click on another group connects the two; a click on the start itself
  does nothing. Outside connection mode the click selects the node.
\<close>

definition on_mousedown :: "group \<Rightarrow> nat \<Rightarrow> js_state \<Rightarrow> js_state" where
  "on_mousedown g now st =
     (if connectionMode st then
        (case connectionStart st of
           None \<Rightarrow> st\<lparr>connectionStart := Some g\<rparr>
         | Some start \<Rightarrow>
             if oid start \<noteq> oid g then
               (createConnection start g now st)\<lparr>connectionStart := None, connectionMode := False\<rparr>
             else st)
      else st\<lparr>selectedNodeId := Some (nodeId g)\<rparr>)"

text \<open>
  \<^verbatim>\<open>renderExistingState\<close>, the last statement of the script: the canvas is cleared and
  every node that \<^verbatim>\<open>canvasState\<close> holds when the page loads is created again with
  \<^verbatim>\<open>createNode\<close> (\<^verbatim>\<open>forEach\<close> visits the elements that are there when it starts, not the
  nodes pushed meanwhile). \<open>draws i\<close> is what the \<open>i\<close>-th of these calls reads from
  the clock and the random generator. An exception of \<^verbatim>\<open>createNode\<close> ends the script.
\<close>

fun render_nodes :: "(nat \<Rightarrow> nat \<times> string) \<Rightarrow> nat \<Rightarrow> canvas_node list \<Rightarrow> js_state \<Rightarrow> js_exception + js_state" where
  "render_nodes draws i [] st = Inr st"
| "render_nodes draws i (node # rest) st =
     (case createNode (n_type node) (n_x node) (n_y node) (fst (draws i)) (snd (draws i)) st of
        Inl e \<Rightarrow> Inl e
      | Inr (g, st') \<Rightarrow> render_nodes draws (Suc i) rest st')"

definition renderExistingState :: "(nat \<Rightarrow> nat \<times> string) \<Rightarrow> js_state \<Rightarrow> js_exception + js_state" where
  "renderExistingState draws st =
     render_nodes draws 0 (cd_nodes (canvasState st)) (st\<lparr>canvas_groups := []\<rparr>)"

text \<open>
  Loading the page runs the script: the variables are set, with the canvas data of the
  session as \<^verbatim>\<open>canvasState\<close>, the handlers are registered, and \<^verbatim>\<open>renderExistingState\<close>
  runs.
\<close>

definition page_load :: "canvas_data \<Rightarrow> (nat \<Rightarrow> nat \<times> string) \<Rightarrow> js_exception + js_state" where
  "page_load cd draws = renderExistingState draws (initial_js_state cd)"

text \<open>
  The events of the page after loading: a double click on the canvas with the answer
  to the prompt, the pointer and the two readings of \<^verbatim>\<open>createNode\<close>; a key; a mouse-down
  on a node group of the canvas, given by its position among the groups, with the clock
  reading of \<^verbatim>\<open>createConnection\<close>. (The listener for the message \<^verbatim>\<open>clear_canvas\<close> is not
  modelled: nothing in the two scripts posts that message.)
\<close>

datatype js_event =
    Dblclick "string option" real real nat string
  | Keydown string
  | Mousedown nat nat

definition js_step :: "js_state \<Rightarrow> js_event \<Rightarrow> js_state" where
  "js_step st ev =
     (case ev of
        Dblclick answer px py now rnd \<Rightarrow> on_dblclick answer px py now rnd st
      | Keydown key \<Rightarrow> on_keydown key st
      | Mousedown i now \<Rightarrow>
          if i < length (canvas_groups st) then on_mousedown (canvas_groups st ! i) now st
          else st)"

text \<open>
  A session of the canvas: the events in order, on the page as loaded with the canvas
  data of the session, which in 1Node.py is always the empty one (lemma
  \<open>run_script_canvas_empty\<close>), so that loading creates nothing (lemma
  \<open>page_load_empty\<close>).
\<close>

definition run_events :: "js_event list \<Rightarrow> js_state" where
  "run_events evs = foldl js_step (initial_js_state empty_canvas) evs"

text \<open>
  What holds of the canvas throughout a session (lemma \<open>run_events_inv\<close>): every group
  on the canvas carries the id of a node of \<^verbatim>\<open>canvasState\<close>; the identity of a group
  is its position among the groups; the start of a connection, if set, is a group of
  the canvas; and both ends of every connection are ids of nodes.
\<close>

definition node_ids :: "js_state \<Rightarrow> string set" where
  "node_ids st = n_id ` set (cd_nodes (canvasState st))"

definition canvas_inv :: "js_state \<Rightarrow> bool" where
  "canvas_inv st \<longleftrightarrow>
     (\<forall>g \<in> set (canvas_groups st). nodeId g \<in> node_ids st)
   \<and> (\<forall>i < length (canvas_groups st). oid (canvas_groups st ! i) = i)
   \<and> (\<forall>g. connectionStart st = Some g \<longrightarrow> g \<in> set (canvas_groups st))
   \<and> (\<forall>c \<in> set (cd_connections (canvasState st)).
         c_from c \<in> node_ids st \<and> c_to c \<in> node_ids st)"

section \<open>Example inputs\<close>

text \<open>
  A session of the canvas: an Input and an LLM node are added by double clicks, the key
  \<^verbatim>\<open>c\<close> switches connection mode on, and a click on the first node makes it the start
  of a connection; then a click on the second node connects the two.
\<close>

definition example_first_click :: "js_event list" where
  "example_first_click =
     [Dblclick (Some ''Input'') 10 10 1701 ''in0a1b2c3'',
      Dblclick (Some ''LLM'') 200 10 1702 ''llm4d5e6f'',
      Keydown ''c'', Mousedown 0 1703]"


text \<open>The editor widgets at the values the script gives them first.\<close>

definition example_widgets :: editor_widgets where
  "example_widgets =
     \<lparr>name_input = [], model_select = ''gpt-3.5-turbo'', temperature_slider = 7 / 10,
      tool_type_select = ''web_search'', parameters_area = ''{}'',
      memory_type_select = ''conversation_buffer'',
      routing_logic_area = ''Define routing conditions...''\<rparr>"

section \<open>Auxiliary facts\<close>

subsection \<open>The export loops\<close>

lemma set_config_keys: "fst ` set (set_config k key v acc) = fst ` set acc"
  by (simp add: set_config_def dom_map_entry)

lemma export_node_keys:
  "fst ` set (export_node str_lower acc node) = insert (n_id node) (fst ` set acc)"
  by (simp add: export_node_def Let_def set_config_keys dom_update split: option.splits)

lemma foldl_export_node_keys:
  "fst ` set (foldl (export_node str_lower) acc ns) = fst ` set acc \<union> n_id ` set ns"
  by (induction ns arbitrary: acc) (simp_all add: export_node_keys)

lemma config_nodes_keys:
  "fst ` set (config_nodes (to_config str_lower cd)) = n_id ` set (cd_nodes cd)"
  by (simp add: to_config_def foldl_export_node_keys)

lemma foldl_snoc_map: "foldl (\<lambda>acc x. acc @ [f x]) acc xs = acc @ map f xs"
  by (induction xs arbitrary: acc) auto

lemma flow_to_config: "flow (to_config str_lower cd) = map export_conn (cd_connections cd)"
  by (simp add: to_config_def foldl_snoc_map)

lemma config_integrity_iff:
  "referential_integrity (to_config str_lower cd) \<longleftrightarrow>
     (\<forall>c \<in> set (cd_connections cd).
        c_from c \<in> n_id ` set (cd_nodes cd) \<and> c_to c \<in> n_id ` set (cd_nodes cd))"
  by (simp add: referential_integrity_def config_nodes_keys flow_to_config list_all_iff
        export_conn_def)

subsection \<open>Sessions of 1Node.py\<close>

text \<open>
  In every session of 1Node.py the canvas data is the empty one and no node is selected:
  the script assigns \<^verbatim>\<open>canvas_data\<close> only when it initialises the session and in Clear
  Canvas, both times the empty dictionary of lists, and assigns \<^verbatim>\<open>selected_node\<close> only
  when it initialises the session. So the properties editor is skipped in every run.
\<close>

lemma properties_editor_unselected: "selected_node s = None \<Longrightarrow> properties_editor w s = s"
  by (simp add: properties_editor_def)

lemma script_run_empty:
  assumes "canvas_data s = empty_canvas" and "selected_node s = None"
  shows "canvas_data (script_run str_lower ev w s) = empty_canvas
       \<and> selected_node (script_run str_lower ev w s) = None"
  using assms
  by (cases ev)
     (simp_all add: script_run_def script_pass_def properties_editor_def export_section_def
        clear_canvas_def export_json_button_def Let_def)

lemma foldl_script_run_empty:
  assumes "canvas_data s = empty_canvas" and "selected_node s = None"
  shows "canvas_data (foldl (\<lambda>s (ev, w). script_run str_lower ev w s) s evs) = empty_canvas
       \<and> selected_node (foldl (\<lambda>s (ev, w). script_run str_lower ev w s) s evs) = None"
  using assms
proof (induction evs arbitrary: s)
  case Nil
  then show ?case by simp
next
  case (Cons e evs)
  obtain ev w where e: "e = (ev, w)" by (cases e)
  show ?case
    using Cons.IH [of "script_run str_lower ev w s"] script_run_empty [OF Cons.prems]
    by (simp add: e)
qed

lemma run_script_canvas_empty:
  "canvas_data (run_script str_lower evs) = empty_canvas
   \<and> selected_node (run_script str_lower evs) = None"
  unfolding run_script_def
  by (rule foldl_script_run_empty) (simp_all add: initial_builder_state_def)

lemma run_script_editor_skipped:
  "properties_editor w (run_script str_lower evs) = run_script str_lower evs"
  by (simp add: properties_editor_unselected run_script_canvas_empty)

subsection \<open>Sessions of the canvas\<close>

lemma canvas_inv_initial: "canvas_inv (initial_js_state empty_canvas)"
  by (simp add: canvas_inv_def initial_js_state_def empty_canvas_def node_ids_def)

lemma createNode_inv:
  assumes "createNode ty x y now rnd st = Inr (g, st')" and "canvas_inv st"
  shows "canvas_inv st'"
proof -
  from assms(1) obtain tpl where tpl: "template_lookup ty = Some tpl"
    by (auto simp: createNode_def Let_def split: option.splits)
  let ?id = "''node_'' @ string_of_nat now @ ''_'' @ rnd"
  have g: "g = \<lparr>oid = length (canvas_groups st), nodeId = ?id, nodeType = ty,
                 group_left = x - 60, group_top = y - 40\<rparr>"
    and st': "st' = st\<lparr>canvas_groups := canvas_groups st @ [g],
                      canvasState := (canvasState st)
                        \<lparr>cd_nodes := cd_nodes (canvasState st) @ [new_node ?id ty x y]\<rparr>\<rparr>"
    using assms(1) tpl by (auto simp: createNode_def Let_def)
  have ids: "node_ids st' = insert ?id (node_ids st)"
    by (simp add: st' node_ids_def new_node_def)
  have gs: "canvas_groups st' = canvas_groups st @ [g]"
    and cs: "cd_connections (canvasState st') = cd_connections (canvasState st)"
    and cstart: "connectionStart st' = connectionStart st"
    by (simp_all add: st')
  have gid: "nodeId g = ?id" and goid: "oid g = length (canvas_groups st)"
    by (simp_all add: g)
  have 1: "\<forall>h \<in> set (canvas_groups st'). nodeId h \<in> node_ids st'"
    using assms(2) unfolding gs ids canvas_inv_def by (auto simp: gid)
  have 2: "\<forall>i < length (canvas_groups st'). oid (canvas_groups st' ! i) = i"
    using assms(2) unfolding gs canvas_inv_def by (auto simp: nth_append goid)
  have 3: "\<forall>h. connectionStart st' = Some h \<longrightarrow> h \<in> set (canvas_groups st')"
    using assms(2) unfolding gs cstart canvas_inv_def by auto
  have 4: "\<forall>c \<in> set (cd_connections (canvasState st')). c_from c \<in> node_ids st' \<and> c_to c \<in> node_ids st'"
    using assms(2) unfolding cs ids canvas_inv_def by auto
  from 1 2 3 4 show ?thesis unfolding canvas_inv_def by blast
qed

lemma on_dblclick_inv: "canvas_inv st \<Longrightarrow> canvas_inv (on_dblclick answer px py now rnd st)"
  by (auto simp: on_dblclick_def createNode_inv split: option.splits sum.splits)

lemma on_keydown_inv: "canvas_inv st \<Longrightarrow> canvas_inv (on_keydown key st)"
  by (simp add: on_keydown_def canvas_inv_def node_ids_def)

lemma on_mousedown_inv:
  assumes "canvas_inv st" and "g \<in> set (canvas_groups st)"
  shows "canvas_inv (on_mousedown g now st)"
  using assms
  by (auto simp: on_mousedown_def createConnection_def canvas_inv_def node_ids_def
           split: option.splits)

lemma js_step_inv: "canvas_inv st \<Longrightarrow> canvas_inv (js_step st ev)"
  by (cases ev) (simp_all add: js_step_def on_dblclick_inv on_keydown_inv on_mousedown_inv)

lemma foldl_js_step_inv: "canvas_inv st \<Longrightarrow> canvas_inv (foldl js_step st evs)"
  by (induction evs arbitrary: st) (simp_all add: js_step_inv)

lemma run_events_inv: "canvas_inv (run_events evs)"
  by (simp add: run_events_def foldl_js_step_inv canvas_inv_initial)

lemma page_load_empty: "page_load empty_canvas draws = Inr (initial_js_state empty_canvas)"
  by (simp add: page_load_def renderExistingState_def initial_js_state_def empty_canvas_def)


lemmas canvas_eval =
  run_events_def js_step_def on_dblclick_def on_keydown_def on_mousedown_def createNode_def
  createConnection_def template_lookup_def componentTemplates_def object_prototype_names_def
  initial_js_state_def empty_canvas_def Let_def string_of_nat.simps new_node_def slice_last_def

lemma example_first_click_state:
  "run_events example_first_click =
     \<lparr>canvasState =
        \<lparr>cd_nodes = [new_node ''node_1701_in0a1b2c3'' ''Input'' 10 10,
                     new_node ''node_1702_llm4d5e6f'' ''LLM'' 200 10],
         cd_connections = []\<rparr>,
      canvas_groups =
        [\<lparr>oid = 0, nodeId = ''node_1701_in0a1b2c3'', nodeType = ''Input'',
          group_left = - 50, group_top = - 30\<rparr>,
         \<lparr>oid = 1, nodeId = ''node_1702_llm4d5e6f'', nodeType = ''LLM'',
          group_left = 140, group_top = - 30\<rparr>],
      selectedNodeId = None, connectionMode = True,
      connectionStart = Some \<lparr>oid = 0, nodeId = ''node_1701_in0a1b2c3'', nodeType = ''Input'',
          group_left = - 50, group_top = - 30\<rparr>\<rparr>"
  by (simp add: example_first_click_def canvas_eval)

subsection \<open>Decimal numerals and suffixes\<close>

lemma string_of_nat_nonempty: "string_of_nat n \<noteq> []"
  by (subst string_of_nat.simps) simp

lemma digit_inj:
  assumes "a < 10" "b < 10" "''0123456789'' ! a = ''0123456789'' ! b"
  shows "a = b"
proof -
  have "distinct ''0123456789''" by simp
  moreover have "a < length ''0123456789''" "b < length ''0123456789''"
    using assms(1,2) by simp_all
  ultimately show ?thesis
    using assms(3) nth_eq_iff_index_eq by blast
qed

lemma string_of_nat_inj: "string_of_nat n = string_of_nat m \<Longrightarrow> n = m"
proof (induction n arbitrary: m rule: string_of_nat.induct)
  case (1 n)
  show ?case
  proof (cases "n < 10")
    case n: True
    show ?thesis
    proof (cases "m < 10")
      case True
      with n "1.prems" show ?thesis
        by (simp add: string_of_nat.simps [of n] string_of_nat.simps [of m] digit_inj)
    next
      case False
      with n "1.prems" show ?thesis
        using string_of_nat_nonempty [of "m div 10"]
        by (simp add: string_of_nat.simps [of n] string_of_nat.simps [of m])
    qed
  next
    case n: False
    show ?thesis
    proof (cases "m < 10")
      case True
      with n "1.prems" show ?thesis
        using string_of_nat_nonempty [of "n div 10"]
        by (simp add: string_of_nat.simps [of n] string_of_nat.simps [of m])
    next
      case False
      with n "1.prems" have e: "string_of_nat (n div 10) = string_of_nat (m div 10)"
        and d: "''0123456789'' ! (n mod 10) = ''0123456789'' ! (m mod 10)"
        by (simp_all add: string_of_nat.simps [of n] string_of_nat.simps [of m])
      from "1.IH" [OF n e] have "n div 10 = m div 10" .
      moreover have "n mod 10 = m mod 10"
        using d by (intro digit_inj) simp_all
      ultimately show ?thesis
        by (metis div_mult_mod_eq)
    qed
  qed
qed

lemma string_of_nat_digits: "set (string_of_nat n) \<subseteq> set ''0123456789''"
proof (induction n rule: string_of_nat.induct)
  case (1 n)
  have d: "''0123456789'' ! k \<in> set ''0123456789''" if "k < 10" for k
    using that nth_mem [of k "''0123456789''"] by simp
  show ?case
  proof (cases "n < 10")
    case True
    then show ?thesis
      using d [of n] by (subst string_of_nat.simps) simp
  next
    case False
    have "set (string_of_nat (n div 10)) \<subseteq> set ''0123456789''"
      using "1.IH" False by simp
    moreover have "''0123456789'' ! (n mod 10) \<in> set ''0123456789''"
      by (rule d) simp
    ultimately show ?thesis
      using False by (subst string_of_nat.simps) simp
  qed
qed

lemma underscore_not_digit: "CHR ''_'' \<notin> set (string_of_nat n)"
  using string_of_nat_digits [of n] by auto

lemma split_at_first:
  "c \<notin> set xs \<Longrightarrow> c \<notin> set ys \<Longrightarrow> xs @ c # r = ys @ c # r' \<Longrightarrow> xs = ys \<and> r = r'"
proof (induction xs arbitrary: ys)
  case Nil
  then show ?case by (cases ys) auto
next
  case (Cons x xs)
  then show ?case by (cases ys) auto
qed

lemma node_id_eq_iff:
  "(''node_'' @ string_of_nat a @ ''_'' @ r = ''node_'' @ string_of_nat b @ ''_'' @ r')
     = (a = b \<and> r = r')"
  using split_at_first [of "CHR ''_''" "string_of_nat a" "string_of_nat b" r r']
        underscore_not_digit [of a] underscore_not_digit [of b] string_of_nat_inj [of a b]
  by auto

lemma createNode_total:
  "template_lookup ty \<noteq> None \<Longrightarrow> \<exists>g st'. createNode ty x y now rnd st = Inr (g, st')"
  by (auto simp: createNode_def Let_def)

lemma slice_last_suffix: "suffix (slice_last k s) s"
  by (simp add: slice_last_def suffix_drop)

lemma slice_last_length: "k \<le> length s \<Longrightarrow> length (slice_last k s) = k"
  by (simp add: slice_last_def)

subsection \<open>The demo buttons\<close>

lemma list_getattr_id: "list_getattr xs ''id'' = Inl AttributeError"
  by (simp add: list_getattr_def list_methods_def)

lemma add_demo_node_flow:
  "agent_flow s < length (heap s) \<Longrightarrow>
   current_flow (snd (add_demo_node u rx ry s)) =
     (current_flow s)\<lparr>nodes := nodes (current_flow s) @ [demo_node u rx ry]\<rparr>"
  by (simp add: add_demo_node_def current_flow_def Let_def)

lemma add_demo_node_valid:
  "agent_flow s < length (heap s) \<Longrightarrow>
   agent_flow (snd (add_demo_node u rx ry s)) < length (heap (snd (add_demo_node u rx ry s)))"
  by (simp add: add_demo_node_def Let_def)

lemma add_demo_nodes_nodes:
  "agent_flow s < length (heap s) \<Longrightarrow>
   nodes (current_flow (add_demo_nodes draws s)) =
     nodes (current_flow s) @ map (\<lambda>(u, rx, ry). demo_node u rx ry) draws"
proof (induction draws arbitrary: s)
  case Nil
  then show ?case by simp
next
  case (Cons d draws)
  obtain u rx ry where d: "d = (u, rx, ry)" by (cases d)
  have v: "agent_flow (snd (add_demo_node u rx ry s)) < length (heap (snd (add_demo_node u rx ry s)))"
    using Cons.prems by (rule add_demo_node_valid)
  show ?case
    using Cons.IH [OF v] Cons.prems by (simp add: d add_demo_node_flow)
qed

section \<open>The claims\<close>

subsection \<open>C1: referential integrity of the exported document\<close>

text \<open>
  C1. For every graph state, the document that \<^verbatim>\<open>to_config\<close> produces has every \<^verbatim>\<open>from\<close>
  and \<^verbatim>\<open>to\<close> of its \<^verbatim>\<open>flow\<close> list among the keys of its \<^verbatim>\<open>nodes\<close> dictionary. The graph
  states are those of the sessions: the canvas state after any sequence of events on
  the page, where a connection is only ever made between two groups that \<^verbatim>\<open>createNode\<close>
  put on the canvas together with their nodes, and the canvas data of the session of
  1Node.py after any sequence of interactions, which is the empty one. (\<^verbatim>\<open>to_config\<close>
  itself checks nothing: lemma \<open>config_integrity_iff\<close> says for which canvas data
  its document has the property.)
\<close>

theorem to_config_referential_integrity:
  "referential_integrity (to_config str_lower (canvasState (run_events evs)))
   \<and> referential_integrity (to_config str_lower (canvas_data (run_script str_lower uis)))"
proof
  show "referential_integrity (to_config str_lower (canvasState (run_events evs)))"
    using run_events_inv [of evs]
    by (simp add: config_integrity_iff canvas_inv_def node_ids_def)
  show "referential_integrity (to_config str_lower (canvas_data (run_script str_lower uis)))"
    by (simp add: config_integrity_iff run_script_canvas_empty empty_canvas_def)
qed

subsection \<open>C3: creating a connection\<close>




subsection \<open>C4: rejected calls\<close>

text \<open>
  C4 does not hold as stated: no call of the code fails with an unknown node. On the
  empty graph of a new session the button Add Demo Connection ends with a warning and
  raises nothing.
\<close>

theorem add_demo_connection_empty_graph_counterexample:
  "add_demo_connection ''c81f0a2e-6b3d-4f5a-9e7c-1d2b4a6f8e03'' initialize_session_state =
     (Done [Warning ''Add at least 2 nodes first.''], initialize_session_state)"
  by (simp add: add_demo_connection_def initialize_session_state_def current_flow_def Let_def)

text \<open>
  C4, amended. Every call that the code rejects leaves the graph unchanged, and none is
  reported as \<^verbatim>\<open>InvalidType\<close>, \<^verbatim>\<open>UnknownNode\<close> or \<^verbatim>\<open>SelfLoop\<close>. Add Demo Connection never
  changes the state: with fewer than two nodes it shows the warning, otherwise it
  raises \<^verbatim>\<open>AttributeError\<close>; in particular on the empty graph of a new session it warns,
  and the graph still has zero nodes and zero connections. A double click answered with
  a name of which \<^verbatim>\<open>componentTemplates\<close> has no property, its own or inherited, and in
  connection mode a click on the node that is the start already, are ignored: the
  canvas state is as before.
\<close>

theorem rejected_calls_leave_graph_unchanged:
  "snd (add_demo_connection uuid4 s) = s
   \<and> fst (add_demo_connection uuid4 s) =
       (if 2 \<le> length (nodes (current_flow s)) then Raised AttributeError
        else Done [Warning ''Add at least 2 nodes first.''])
   \<and> add_demo_connection uuid4 initialize_session_state =
       (Done [Warning ''Add at least 2 nodes first.''], initialize_session_state)
   \<and> nodes (current_flow initialize_session_state) = []
   \<and> connections (current_flow initialize_session_state) = []
   \<and> (template_lookup ty = None \<longrightarrow>
        on_dblclick (Some ty) px py now rnd st = st)
   \<and> (connectionMode st \<and> connectionStart st = Some g \<longrightarrow> on_mousedown g now st = st)"
  by (simp add: add_demo_connection_def Let_def list_getattr_id initialize_session_state_def
        current_flow_def on_dblclick_def on_mousedown_def)

theorem rejected_calls_leave_graph_unchanged_witness:
  "template_lookup ''Prompt'' = None
   \<and> js_step (run_events example_first_click) (Dblclick (Some ''Prompt'') 300 10 1705 ''pr0m9t8x7'')
       = run_events example_first_click
   \<and> connectionMode (run_events example_first_click)
   \<and> connectionStart (run_events example_first_click) =
       Some (canvas_groups (run_events example_first_click) ! 0)
   \<and> js_step (run_events example_first_click) (Mousedown 0 1705) = run_events example_first_click"
proof -
  let ?st = "run_events example_first_click"
  let ?g = "canvas_groups ?st ! 0"
  have a: "template_lookup ''Prompt'' = None"
    by (simp add: template_lookup_def componentTemplates_def object_prototype_names_def)
  have b: "connectionMode ?st \<and> connectionStart ?st = Some ?g"
    by (simp add: example_first_click_state)
  have l: "0 < length (canvas_groups ?st)"
    by (simp add: example_first_click_state)
  from rejected_calls_leave_graph_unchanged
         [of "''c81f0a2e''" initialize_session_state "''Prompt''" 300 10 1705 "''pr0m9t8x7''" ?st ?g]
       a b
  have c: "on_dblclick (Some ''Prompt'') 300 10 1705 ''pr0m9t8x7'' ?st = ?st"
    and d: "on_mousedown ?g 1705 ?st = ?st"
    by blast+
  have c': "js_step ?st (Dblclick (Some ''Prompt'') 300 10 1705 ''pr0m9t8x7'') = ?st"
    using c by (simp add: js_step_def)
  have d': "js_step ?st (Mousedown 0 1705) = ?st"
    using d l by (simp add: js_step_def)
  from a b c' d' show ?thesis by blast
qed

subsection \<open>C6: ids of added nodes\<close>

text \<open>
  C6 does not hold for every sequence of presses: Add Demo Node takes the string of the
  drawn UUID as the id and compares it with no other id. Two presses in a new session
  that draw the same UUID give two nodes with the same id.
\<close>

theorem repeated_draw_counterexample:
  "map nc_id (nodes (current_flow (add_demo_nodes
      [(''3f2b8c1e-7a4d-4e9b-8f6a-2c5d1e0b9a47'', 1 / 2, 1 / 4),
       (''3f2b8c1e-7a4d-4e9b-8f6a-2c5d1e0b9a47'', 3 / 4, 1 / 8)] initialize_session_state))) =
     [''3f2b8c1e-7a4d-4e9b-8f6a-2c5d1e0b9a47'', ''3f2b8c1e-7a4d-4e9b-8f6a-2c5d1e0b9a47'']
   \<and> \<not> distinct (map nc_id (nodes (current_flow (add_demo_nodes
      [(''3f2b8c1e-7a4d-4e9b-8f6a-2c5d1e0b9a47'', 1 / 2, 1 / 4),
       (''3f2b8c1e-7a4d-4e9b-8f6a-2c5d1e0b9a47'', 3 / 4, 1 / 8)] initialize_session_state))))"
  by (simp add: add_demo_node_def demo_node_def initialize_session_state_def current_flow_def
        Let_def)

text \<open>
  C6, amended. For every sequence of presses of Add Demo Node, the ids of the added
  nodes are the draws of \<^verbatim>\<open>uuid.uuid4()\<close>, in order, after the ids that were there; the
  node ids of the graph are pairwise distinct exactly when the ids that were there are,
  the draws are pairwise distinct, and no draw is an id that was there.
\<close>

theorem add_demo_node_ids_distinct_iff:
  assumes "agent_flow s < length (heap s)"
  shows "map nc_id (nodes (current_flow (add_demo_nodes draws s))) =
           map nc_id (nodes (current_flow s)) @ map fst draws
       \<and> (distinct (map nc_id (nodes (current_flow (add_demo_nodes draws s)))) \<longleftrightarrow>
            distinct (map nc_id (nodes (current_flow s))) \<and> distinct (map fst draws)
            \<and> set (map fst draws) \<inter> set (map nc_id (nodes (current_flow s))) = {})"
proof -
  have "map nc_id (nodes (current_flow (add_demo_nodes draws s))) =
           map nc_id (nodes (current_flow s)) @ map fst draws"
    using add_demo_nodes_nodes [OF assms, of draws] by (auto simp: demo_node_def)
  then show ?thesis
    by (auto simp: Int_commute)
qed

theorem add_demo_node_ids_distinct_iff_witness:
  "agent_flow initialize_session_state < length (heap initialize_session_state)
   \<and> map nc_id (nodes (current_flow (add_demo_nodes
      [(''3f2b8c1e-7a4d-4e9b-8f6a-2c5d1e0b9a47'', 1 / 2, 1 / 4),
       (''9d4e1a70-52c3-4b8f-a6e1-0f7b3c2d8e95'', 3 / 4, 1 / 8)] initialize_session_state))) =
     [''3f2b8c1e-7a4d-4e9b-8f6a-2c5d1e0b9a47'', ''9d4e1a70-52c3-4b8f-a6e1-0f7b3c2d8e95'']
   \<and> distinct (map nc_id (nodes (current_flow (add_demo_nodes
      [(''3f2b8c1e-7a4d-4e9b-8f6a-2c5d1e0b9a47'', 1 / 2, 1 / 4),
       (''9d4e1a70-52c3-4b8f-a6e1-0f7b3c2d8e95'', 3 / 4, 1 / 8)] initialize_session_state))))"
proof -
  let ?draws = "[(''3f2b8c1e-7a4d-4e9b-8f6a-2c5d1e0b9a47'', 1 / 2 :: real, 1 / 4 :: real),
       (''9d4e1a70-52c3-4b8f-a6e1-0f7b3c2d8e95'', 3 / 4, 1 / 8)]"
  have 1: "agent_flow initialize_session_state < length (heap initialize_session_state)"
    by (simp add: initialize_session_state_def)
  have 5: "map nc_id (nodes (current_flow initialize_session_state)) = []"
    by (simp add: initialize_session_state_def current_flow_def)
  have 3: "distinct (map fst ?draws)"
    by simp
  from add_demo_node_ids_distinct_iff [OF 1, of ?draws] 3 1 show ?thesis
    by (simp add: 5)
qed

subsection \<open>C7: saving and loading\<close>

text \<open>
  C7 asks that the graph stored by \<^verbatim>\<open>save(name)\<close> is a copy, untouched by later changes
  of the active graph. Save stores the reference to the active \<^verbatim>\<open>AgentFlow\<close> object and
  Add Demo Node appends to that object: in a new session, after Save under
  \<^verbatim>\<open>MyAgent\<close> the stored graph has no node, and after one press of Add Demo Node the
  graph stored under \<^verbatim>\<open>MyAgent\<close> has the new node.
\<close>

theorem save_stores_the_reference:
  "saved_flow (snd (save ''MyAgent'' initialize_session_state)) ''MyAgent'' =
     Some \<lparr>nodes = [], connections = [], metadata = []\<rparr>
   \<and> saved_flow (snd (add_demo_node ''3f2b8c1e-7a4d-4e9b-8f6a-2c5d1e0b9a47'' (1 / 2) (1 / 4)
                        (snd (save ''MyAgent'' initialize_session_state)))) ''MyAgent'' =
     Some \<lparr>nodes = [\<lparr>nc_id = ''3f2b8c1e-7a4d-4e9b-8f6a-2c5d1e0b9a47'', nc_type = ''Input'',
                       nc_name = ''Input_3f2b'', nc_x = 200, nc_y = 100, nc_properties = []\<rparr>],
            connections = [], metadata = []\<rparr>"
  by (simp add: save_def add_demo_node_def demo_node_def initialize_session_state_def
        saved_flow_def current_flow_def Let_def)

subsection \<open>Further properties of saving, loading and node ids\<close>

text \<open>
  Load makes the stored object the active graph, for every saved name but the empty
  string, which the select box uses for no choice.
\<close>

theorem load_replaces_active_graph:
  assumes "map_of (saved_agents s) agent_name = Some r" and "agent_name \<noteq> []"
  shows "load agent_name s = (Rerun [Success ''Loaded agent!''], s\<lparr>agent_flow := r\<rparr>)
       \<and> Some (current_flow (snd (load agent_name s))) = saved_flow s agent_name"
proof -
  from assms(1) have "saved_agents s \<noteq> []" by auto
  with assms show ?thesis
    by (simp add: load_def current_flow_def saved_flow_def)
qed

theorem load_replaces_active_graph_witness:
  "map_of (saved_agents (snd (save ''MyAgent'' (snd (clear initialize_session_state))))) ''MyAgent''
     = Some 1
   \<and> agent_flow (snd (load ''MyAgent''
        (snd (clear (snd (save ''MyAgent'' (snd (clear initialize_session_state)))))))) = 1"
proof -
  let ?s = "snd (clear (snd (save ''MyAgent'' (snd (clear initialize_session_state)))))"
  have a: "map_of (saved_agents ?s) ''MyAgent'' = Some 1"
    by (simp add: save_def clear_def initialize_session_state_def)
  have b: "''MyAgent'' \<noteq> []"
    by simp
  have c: "map_of (saved_agents (snd (save ''MyAgent'' (snd (clear initialize_session_state))))) ''MyAgent''
     = Some 1"
    by (simp add: save_def clear_def initialize_session_state_def)
  from load_replaces_active_graph [OF a b] have "agent_flow (snd (load ''MyAgent'' ?s)) = 1"
    by simp
  with c show ?thesis by simp
qed

text \<open>
  Save keeps one entry for a name: after Save the name stands for the graph that was
  active at this Save, whatever was stored under the name before, and the names of the
  registry stay distinct.
\<close>

theorem save_last_write_wins:
  assumes "distinct (map fst (saved_agents s))"
  shows "map_of (saved_agents (snd (save agent_name s))) agent_name = Some (agent_flow s)
       \<and> distinct (map fst (saved_agents (snd (save agent_name s))))
       \<and> saved_flow (snd (save agent_name s)) agent_name = Some (current_flow s)"
  using assms by (simp add: save_def update_conv' distinct_update saved_flow_def current_flow_def)

theorem save_last_write_wins_witness:
  "distinct (map fst (saved_agents (snd (save ''MyAgent'' initialize_session_state))))
   \<and> saved_agents (snd (save ''MyAgent'' (snd (clear (snd (save ''MyAgent'' initialize_session_state))))))
       = [(''MyAgent'', 1)]"
proof -
  let ?s = "snd (clear (snd (save ''MyAgent'' initialize_session_state)))"
  have a: "distinct (map fst (saved_agents ?s))"
    by (simp add: save_def clear_def initialize_session_state_def)
  have b: "distinct (map fst (saved_agents (snd (save ''MyAgent'' initialize_session_state))))"
    by (simp add: save_def initialize_session_state_def)
  have c: "saved_agents (snd (save ''MyAgent'' ?s)) = [(''MyAgent'', 1)]"
    using save_last_write_wins [OF a, of "''MyAgent''"]
    by (simp add: save_def clear_def initialize_session_state_def)
  from b c show ?thesis by simp
qed

text \<open>
  The ids that \<^verbatim>\<open>createNode\<close> generates: two calls give the same id exactly when they
  read the same clock value and draw the same random suffix. The script compares no
  ids.
\<close>

theorem createNode_ids_differ:
  assumes "createNode ty x y now rnd st = Inr (g, st1)"
    and "createNode ty' x' y' now' rnd' st' = Inr (g', st1')"
  shows "(nodeId g = nodeId g') = (now = now' \<and> rnd = rnd')"
  using assms node_id_eq_iff [of now rnd now' rnd']
  by (auto simp: createNode_def Let_def split: option.splits)

theorem createNode_ids_differ_witness:
  "\<exists>g st1 g' st2.
      createNode ''Input'' 10 10 1701 ''in0a1b2c3'' (initial_js_state empty_canvas) = Inr (g, st1)
      \<and> createNode ''LLM'' 200 10 1701 ''llm4d5e6f'' st1 = Inr (g', st2)
      \<and> nodeId g \<noteq> nodeId g'"
proof -
  have v: "template_lookup ''Input'' \<noteq> None" "template_lookup ''LLM'' \<noteq> None"
    by (simp_all add: template_lookup_def componentTemplates_def)
  obtain g st1 where
    a: "createNode ''Input'' 10 10 1701 ''in0a1b2c3'' (initial_js_state empty_canvas) = Inr (g, st1)"
    using createNode_total [OF v(1)] by blast
  obtain g' st2 where b: "createNode ''LLM'' 200 10 1701 ''llm4d5e6f'' st1 = Inr (g', st2)"
    using createNode_total [OF v(2)] by blast
  from createNode_ids_differ [OF a b] have "nodeId g \<noteq> nodeId g'"
    by simp
  with a b show ?thesis by blast
qed

subsection \<open>C8: clearing\<close>

text \<open>
  C8. Clear Canvas of 1Node.py and Clear of Node.py always end with a rerun, never with
  an exception. After Clear Canvas the canvas data has no node and no connection, and the
  document generated from it has the empty dictionary under \<^verbatim>\<open>nodes\<close> and the empty list
  under \<^verbatim>\<open>flow\<close>, beside the two fixed fields; the export section shows this document
  when \<^verbatim>\<open>show_json\<close> is set. After Clear of Node.py the active graph is a new one with no
  node, no connection and empty metadata, and the canvas data is empty.
\<close>

theorem clear_then_to_config:
  "fst (clear_canvas s) = Rerun []
   \<and> cd_nodes (canvas_data (snd (clear_canvas s))) = []
   \<and> cd_connections (canvas_data (snd (clear_canvas s))) = []
   \<and> to_config str_lower (canvas_data (snd (clear_canvas s))) =
       \<lparr>agent_type = ''custom_visual_agent'', created_at = ''2024-01-01T00:00:00Z'',
        config_nodes = [], flow = []\<rparr>
   \<and> fst (export_section str_lower hide (snd (clear_canvas s))) =
       (if show_json s then
          Some \<lparr>agent_type = ''custom_visual_agent'', created_at = ''2024-01-01T00:00:00Z'',
                config_nodes = [], flow = []\<rparr>
        else None)
   \<and> fst (clear t) = Rerun []
   \<and> current_flow (snd (clear t)) = \<lparr>nodes = [], connections = [], metadata = []\<rparr>
   \<and> canvas (snd (clear t)) = \<lparr>cd_nodes = [], cd_connections = []\<rparr>"
  by (simp add: clear_canvas_def empty_canvas_def to_config_def export_section_def Let_def
        clear_def current_flow_def)

subsection \<open>C9: default names\<close>

text \<open>
  C9 does not hold for Add Demo Node of Node.py: the name is \<^verbatim>\<open>Input_\<close> followed by the
  first four characters of the id, and they are no suffix of the id.
\<close>

theorem demo_node_name_counterexample:
  "nc_id (demo_node ''3f2b8c1e-7a4d-4e9b-8f6a-2c5d1e0b9a47'' 0 0) =
     ''3f2b8c1e-7a4d-4e9b-8f6a-2c5d1e0b9a47''
   \<and> nc_name (demo_node ''3f2b8c1e-7a4d-4e9b-8f6a-2c5d1e0b9a47'' 0 0) = ''Input_3f2b''
   \<and> \<not> suffix ''3f2b'' (nc_id (demo_node ''3f2b8c1e-7a4d-4e9b-8f6a-2c5d1e0b9a47'' 0 0))"
  by (simp add: demo_node_def suffix_to_prefix)

text \<open>
  C9, amended. For every component type of 1Node.py, \<^verbatim>\<open>createNode\<close> succeeds and the node
  it adds carries the freshly generated id and the name made of the type, an underscore
  and the last four characters of that id. The node added by Add Demo Node of Node.py
  has type \<^verbatim>\<open>Input\<close> and the name \<^verbatim>\<open>Input_\<close> followed by the first four characters of
  its id.
\<close>

theorem default_names:
  assumes "map_of componentTemplates ty = Some colour"
  shows "(\<exists>g st'. createNode ty x y now rnd st = Inr (g, st')
           \<and> nodeId g = ''node_'' @ string_of_nat now @ ''_'' @ rnd
           \<and> cd_nodes (canvasState st') = cd_nodes (canvasState st) @ [new_node (nodeId g) ty x y]
           \<and> n_id (new_node (nodeId g) ty x y) = nodeId g
           \<and> n_name (new_node (nodeId g) ty x y) = Some (ty @ ''_'' @ slice_last 4 (nodeId g))
           \<and> suffix (slice_last 4 (nodeId g)) (nodeId g)
           \<and> length (slice_last 4 (nodeId g)) = 4)
       \<and> nc_id (demo_node uuid4 rand_x rand_y) = uuid4
       \<and> nc_type (demo_node uuid4 rand_x rand_y) = ''Input''
       \<and> nc_name (demo_node uuid4 rand_x rand_y) = ''Input_'' @ take 4 uuid4
       \<and> prefix (take 4 uuid4) uuid4"
  using assms
  by (simp add: createNode_def template_lookup_def Let_def new_node_def slice_last_suffix
        slice_last_length demo_node_def take_is_prefix)

theorem default_names_witness:
  "map_of componentTemplates ''LLM'' = Some ''#2196F3''
   \<and> (\<exists>g st'. createNode ''LLM'' 200 10 1702 ''llm4d5e6f'' (initial_js_state empty_canvas) = Inr (g, st')
        \<and> nodeId g = ''node_1702_llm4d5e6f''
        \<and> n_name (last (cd_nodes (canvasState st'))) = Some ''LLM_5e6f'')"
proof -
  have a: "map_of componentTemplates ''LLM'' = Some ''#2196F3''"
    by (simp add: componentTemplates_def)
  from default_names [OF a, of 200 10 1702 "''llm4d5e6f''" "initial_js_state empty_canvas"]
  obtain g st' where
    r: "createNode ''LLM'' 200 10 1702 ''llm4d5e6f'' (initial_js_state empty_canvas) = Inr (g, st')"
    and i: "nodeId g = ''node_'' @ string_of_nat 1702 @ ''_'' @ ''llm4d5e6f''"
    and n: "cd_nodes (canvasState st') =
              cd_nodes (canvasState (initial_js_state empty_canvas)) @ [new_node (nodeId g) ''LLM'' 200 10]"
    and m: "n_name (new_node (nodeId g) ''LLM'' 200 10) = Some (''LLM'' @ ''_'' @ slice_last 4 (nodeId g))"
    by blast
  have i': "nodeId g = ''node_1702_llm4d5e6f''"
    using i by (simp add: string_of_nat.simps)
  have "n_name (last (cd_nodes (canvasState st'))) = Some ''LLM_5e6f''"
    using m by (simp add: n i' slice_last_def)
  with a r i' show ?thesis by blast
qed

subsection \<open>C10: Add Demo Connection\<close>

text \<open>
  C10. In every state whose graph holds at least two nodes, Add Demo Connection raises
  \<^verbatim>\<open>AttributeError\<close> (the read of \<^verbatim>\<open>id\<close> on the node list itself) with the state as it
  was; and in every state at all, however the block ends, the connections of the graph
  are as before: the button never adds a connection.
\<close>

theorem add_demo_connection_never_adds:
  "(2 \<le> length (nodes (current_flow s)) \<longrightarrow>
      add_demo_connection uuid4 s = (Raised AttributeError, s))
   \<and> connections (current_flow (snd (add_demo_connection uuid4 s))) = connections (current_flow s)
   \<and> heap (snd (add_demo_connection uuid4 s)) = heap s"
  by (simp add: add_demo_connection_def Let_def list_getattr_id)

theorem add_demo_connection_never_adds_witness:
  "2 \<le> length (nodes (current_flow (add_demo_nodes
          [(''3f2b8c1e-7a4d-4e9b-8f6a-2c5d1e0b9a47'', 1 / 2, 1 / 4),
           (''9d4e1a70-52c3-4b8f-a6e1-0f7b3c2d8e95'', 3 / 4, 1 / 8)] initialize_session_state)))
   \<and> fst (add_demo_connection ''c81f0a2e-6b3d-4f5a-9e7c-1d2b4a6f8e03''
        (add_demo_nodes
          [(''3f2b8c1e-7a4d-4e9b-8f6a-2c5d1e0b9a47'', 1 / 2, 1 / 4),
           (''9d4e1a70-52c3-4b8f-a6e1-0f7b3c2d8e95'', 3 / 4, 1 / 8)] initialize_session_state))
      = Raised AttributeError"
proof -
  let ?s = "add_demo_nodes
          [(''3f2b8c1e-7a4d-4e9b-8f6a-2c5d1e0b9a47'', 1 / 2, 1 / 4),
           (''9d4e1a70-52c3-4b8f-a6e1-0f7b3c2d8e95'', 3 / 4, 1 / 8)] initialize_session_state"
  have h: "2 \<le> length (nodes (current_flow ?s))"
    by (simp add: add_demo_node_def initialize_session_state_def current_flow_def Let_def)
  from add_demo_connection_never_adds [of ?s "''c81f0a2e-6b3d-4f5a-9e7c-1d2b4a6f8e03''"] h
  have "add_demo_connection ''c81f0a2e-6b3d-4f5a-9e7c-1d2b4a6f8e03'' ?s = (Raised AttributeError, ?s)"
    by blast
  with h show ?thesis by simp
qed

end
